theory Spec2Isabelle
  imports
    Main
    "HOL-Library.Word"
    "HOL-Library.Multiset"
    "HOL-Library.AList"
    "HOL-Library.Char_ord"
    "HOL-Library.List_Lexorder"
begin

section \<open>Revisions and their items\<close>

text \<open>
  The version-control core of the workstation, \<^verbatim>\<open>Source/Core/VCS/VersionControl.cpp\<close>.
  Only the orchestrator \<^verbatim>\<open>VersionControl\<close> is part of the sources at hand; the classes
  it composes (\<^verbatim>\<open>Revision\<close>, \<^verbatim>\<open>RevisionItem\<close>, \<^verbatim>\<open>Pack\<close>, \<^verbatim>\<open>Head\<close>,
  \<^verbatim>\<open>StashesRepository\<close>) are modelled from the specification, each under a comment that
  says so.

  A revision is a tree node: id, message, timestamp, its items and the child revisions
  it owns. Reference-counted pointers to revisions are modelled by the revisions
  themselves; ids are unique in a tree, so a revision is addressed by its id where the
  code follows a pointer into the tree.
\<close>

type_synonym Uuid = string
type_synonym Payload = string

datatype Kind = Added | Removed | Changed

datatype RevisionItem =
  RevisionItem (getItemId: Uuid) (getType: Kind) (getPayload: Payload)

datatype Revision =
  Revision (getUuid: Uuid) (getMessage: string) (getTimeStamp: int)
    (getItems: "RevisionItem list") (getChildren: "Revision list")

text \<open>
  Modelled from the spec: the constructor \<^verbatim>\<open>Revision(pack, message)\<close> is missing from
  the sources. A new revision has no items and no children; \<open>uid\<close> and \<open>now\<close> stand for
  the fresh id and the clock reading the constructor takes from its environment.
\<close>

definition newRevision :: "Uuid \<Rightarrow> int \<Rightarrow> string \<Rightarrow> Revision" where
  "newRevision uid now message = Revision uid message now [] []"

text \<open>
  Modelled from the spec: the sentinel \<^verbatim>\<open>new Revision(pack)\<close> and \<^verbatim>\<open>Revision::isEmpty\<close>
  are missing from the sources. The spec: a distinguished "empty" sentinel revision
  represents "not found"; it is never null and always reports \<^verbatim>\<open>isEmpty() == true\<close>.
  The sentinel is the revision built with no message; a revision is empty when it
  carries neither items nor children, as the sentinel does.
\<close>

definition emptyRevision :: Revision where
  "emptyRevision = newRevision [] 0 []"

definition isEmpty :: "Revision \<Rightarrow> bool" where
  "isEmpty r = (getItems r = [] \<and> getChildren r = [])"

text \<open>
  Modelled from the spec: \<^verbatim>\<open>Revision::addChild\<close> attaches and takes ownership, with no
  uniqueness check; \<^verbatim>\<open>Revision::addItem\<close> inserts into the item set, which holds at most
  one item per target id (set membership is keyed by the target id).
\<close>

definition addChild :: "Revision \<Rightarrow> Revision \<Rightarrow> Revision" where
  "addChild child r =
     Revision (getUuid r) (getMessage r) (getTimeStamp r) (getItems r) (getChildren r @ [child])"

definition addItem :: "RevisionItem \<Rightarrow> Revision \<Rightarrow> Revision" where
  "addItem item r =
     (if getItemId item \<in> set (map getItemId (getItems r)) then r
      else Revision (getUuid r) (getMessage r) (getTimeStamp r) (getItems r @ [item])
             (getChildren r))"

section \<open>Content hash\<close>

text \<open>
  \<^verbatim>\<open>String(uint32)\<close>: the decimal digits of an unsigned 32-bit number.
\<close>

fun decimalDigits :: "nat \<Rightarrow> string" where
  "decimalDigits n =
     (if n < 10 then [char_of (48 + n)]
      else decimalDigits (n div 10) @ [char_of (48 + n mod 10)])"

declare decimalDigits.simps [simp del]

definition String_of_uint32 :: "32 word \<Rightarrow> string" where
  "String_of_uint32 w = decimalDigits (unat w)"

text \<open>
  Modelled from the spec: \<^verbatim>\<open>Revision::calculateHash\<close> is missing from the sources. The
  spec: combine own items' serialized form with the sorted, order-independent set of all
  descendant hashes. The hash function \<^verbatim>\<open>CompileTimeHash\<close> is declared in a header that
  is not part of the sources either; it is the parameter \<open>cth\<close> throughout.
\<close>

fun kindName :: "Kind \<Rightarrow> string" where
  "kindName Added = ''added''"
| "kindName Removed = ''removed''"
| "kindName Changed = ''changed''"

definition serializeItem :: "RevisionItem \<Rightarrow> string" where
  "serializeItem item = getItemId item @ kindName (getType item) @ getPayload item"

fun descendantHashes :: "(string \<Rightarrow> 32 word) \<Rightarrow> Revision \<Rightarrow> string list" where
  "descendantHashes cth (Revision uid msg ts items children) =
     concat (map (\<lambda>child.
        String_of_uint32
          (cth (concat (map serializeItem (getItems child))
                @ concat (sort (descendantHashes cth child))))
        # descendantHashes cth child) children)"

definition Revision_calculateHash :: "(string \<Rightarrow> 32 word) \<Rightarrow> Revision \<Rightarrow> 32 word" where
  "Revision_calculateHash cth r =
     cth (concat (map serializeItem (getItems r)) @ concat (sort (descendantHashes cth r)))"

text \<open>
  \<^verbatim>\<open>recursiveGetHashes\<close>: the hashes of the children's subtrees, in child order, then
  the revision's own hash.
\<close>

fun recursiveGetHashes :: "(string \<Rightarrow> 32 word) \<Rightarrow> Revision \<Rightarrow> string list" where
  "recursiveGetHashes cth (Revision uid msg ts items children) =
     concat (map (recursiveGetHashes cth) children)
     @ [String_of_uint32 (Revision_calculateHash cth (Revision uid msg ts items children))]"

text \<open>
  \<^verbatim>\<open>VersionControl::calculateHash\<close>: sort the collected strings, join them with the
  empty separator and hash the result. The strings are decimal digits only, so the
  case-insensitive comparison \<^verbatim>\<open>sort(true)\<close> asks for is the plain lexicographic one.
\<close>

definition calculateHash :: "(string \<Rightarrow> 32 word) \<Rightarrow> Revision \<Rightarrow> string" where
  "calculateHash cth rootRev =
     String_of_uint32 (cth (concat (sort (recursiveGetHashes cth rootRev))))"

text \<open>
  A history that differs from another only in child order: \<open>reorderChildren f rid\<close>
  rearranges, by \<open>f\<close>, the children of the revision whose id is \<open>rid\<close>.
\<close>

fun reorderChildren :: "(Revision list \<Rightarrow> Revision list) \<Rightarrow> Uuid \<Rightarrow> Revision \<Rightarrow> Revision" where
  "reorderChildren f rid (Revision uid msg ts items children) =
     Revision uid msg ts items
       (if uid = rid then f (map (reorderChildren f rid) children)
        else map (reorderChildren f rid) children)"

section \<open>Lookup by id\<close>

text \<open>
  \<^verbatim>\<open>VersionControl::getRevisionById\<close>: depth first; the loop over the children returns
  the first search result that is not empty, and a fresh sentinel when there is none.
\<close>

fun getRevisionById :: "Revision \<Rightarrow> string \<Rightarrow> Revision"
  and getRevisionByIdIn :: "Revision list \<Rightarrow> string \<Rightarrow> Revision" where
  "getRevisionById (Revision uid msg ts items children) rid =
     (if uid = rid then Revision uid msg ts items children
      else getRevisionByIdIn children rid)"
| "getRevisionByIdIn [] rid = emptyRevision"
| "getRevisionByIdIn (child # children) rid =
     (let search = getRevisionById child rid
      in if \<not> isEmpty search then search else getRevisionByIdIn children rid)"

fun allIds :: "Revision \<Rightarrow> Uuid list" where
  "allIds (Revision uid msg ts items children) = uid # concat (map allIds children)"

section \<open>Pack\<close>

text \<open>
  Modelled from the spec: \<^verbatim>\<open>Pack\<close> is missing from the sources. The spec: a
  content-addressed payload store that dedups repeated payloads and has a dirty set
  flushed to persistent storage; a failed flush is non-fatal and retains the in-memory
  state. Entries are keyed by their content here; \<open>storageOk\<close> says whether the
  storage accepts a write.
\<close>

record Pack =
  payloads :: "Payload list"
  dirty :: "Payload list"
  persisted :: "Payload list"
  storageOk :: bool

definition Pack_store :: "Payload \<Rightarrow> Pack \<Rightarrow> Pack" where
  "Pack_store p pk =
     (if p \<in> set (payloads pk) then pk
      else pk\<lparr>payloads := payloads pk @ [p], dirty := dirty pk @ [p]\<rparr>)"

definition Pack_flush :: "Pack \<Rightarrow> Pack" where
  "Pack_flush pk =
     (if storageOk pk then pk\<lparr>persisted := persisted pk @ dirty pk, dirty := []\<rparr> else pk)"

text \<open>
  Modelled from the spec: \<^verbatim>\<open>Revision::flush\<close> pushes the item payloads into the pack.
\<close>

definition Revision_flush :: "Revision \<Rightarrow> Pack \<Rightarrow> Pack" where
  "Revision_flush r pk = fold Pack_store (map getPayload (getItems r)) pk"

section \<open>Head\<close>

text \<open>
  Modelled from the spec: \<^verbatim>\<open>Head\<close> is missing from the sources. The spec: a cursor
  onto a revision plus a materialized index (entity id to the latest item along the
  path from the root to the heading revision). The live document, which the head
  reaches through its reference to the tracked-items source, is a list of entity ids
  with their current state. After construction the head is always bound to a revision,
  so the heading revision is never null.
\<close>

type_synonym Document = "(Uuid \<times> Payload) list"

record Head =
  headingRevision :: Revision
  index :: "(Uuid \<times> RevisionItem) list"
  indexValid :: bool

text \<open>An entity takes the state an item records; a tombstone removes it.\<close>

definition applyItem :: "RevisionItem \<Rightarrow> Document \<Rightarrow> Document" where
  "applyItem item doc =
     (case getType item of
        Removed \<Rightarrow> AList.delete (getItemId item) doc
      | Added \<Rightarrow> AList.update (getItemId item) (getPayload item) doc
      | Changed \<Rightarrow> AList.update (getItemId item) (getPayload item) doc)"

text \<open>The revisions from the root down to the one with the given id; empty when absent.\<close>

fun pathTo :: "Revision \<Rightarrow> Uuid \<Rightarrow> Revision list"
  and pathToIn :: "Revision list \<Rightarrow> Uuid \<Rightarrow> Revision list" where
  "pathTo (Revision uid msg ts items children) rid =
     (if uid = rid then [Revision uid msg ts items children]
      else (case pathToIn children rid of
              [] \<Rightarrow> []
            | p # ps \<Rightarrow> Revision uid msg ts items children # p # ps))"
| "pathToIn [] rid = []"
| "pathToIn (child # children) rid =
     (case pathTo child rid of [] \<Rightarrow> pathToIn children rid | p # ps \<Rightarrow> p # ps)"

definition mergeItems ::
  "(Uuid \<times> RevisionItem) list \<Rightarrow> Revision \<Rightarrow> (Uuid \<times> RevisionItem) list" where
  "mergeItems idx r = fold (\<lambda>item. AList.update (getItemId item) item) (getItems r) idx"

text \<open>
  \<^verbatim>\<open>pointTo\<close> rebinds the heading revision and marks the index invalid. \<^verbatim>\<open>moveTo\<close>
  leaves the index equal to the merge, last writer wins and in root-to-target order, of
  the items of the target and of its ancestors in the tree \<open>rootRev\<close>; a revision outside
  the tree (a stash) has no ancestors.
\<close>

definition Head_pointTo :: "Revision \<Rightarrow> Head \<Rightarrow> Head" where
  "Head_pointTo revision h = h\<lparr>headingRevision := revision, indexValid := False\<rparr>"

definition Head_moveTo :: "Revision \<Rightarrow> Revision \<Rightarrow> Head \<Rightarrow> Head" where
  "Head_moveTo rootRev revision h =
     h\<lparr>headingRevision := revision,
       index := foldl mergeItems [] (butlast (pathTo rootRev (getUuid revision)) @ [revision]),
       indexValid := True\<rparr>"

text \<open>
  \<^verbatim>\<open>getDiff\<close> compares every live entity with the index and returns the mismatches as
  an unattached revision. The cache of the result is not modelled: the diff is the
  comparison itself.
\<close>

definition diffOfEntity :: "(Uuid \<times> RevisionItem) list \<Rightarrow> Uuid \<times> Payload \<Rightarrow> RevisionItem list" where
  "diffOfEntity idx entity =
     (case map_of idx (fst entity) of
        None \<Rightarrow> [RevisionItem (fst entity) Added (snd entity)]
      | Some item \<Rightarrow>
          if getType item = Removed then [RevisionItem (fst entity) Added (snd entity)]
          else if getPayload item = snd entity then []
          else [RevisionItem (fst entity) Changed (snd entity)])"

definition diffOfIndexed :: "Document \<Rightarrow> Uuid \<times> RevisionItem \<Rightarrow> RevisionItem list" where
  "diffOfIndexed doc entry =
     (if getType (snd entry) = Removed then []
      else if fst entry \<in> set (map fst doc) then []
      else [RevisionItem (fst entry) Removed []])"

definition Head_getDiff :: "Document \<Rightarrow> Head \<Rightarrow> Revision" where
  "Head_getDiff doc h =
     Revision [] [] 0
       (concat (map (diffOfEntity (index h)) doc) @ concat (map (diffOfIndexed doc) (index h)))
       []"

definition Head_checkout :: "Head \<Rightarrow> Document \<Rightarrow> Document" where
  "Head_checkout h doc = fold applyItem (map snd (index h)) doc"

definition Head_cherryPick :: "Uuid list \<Rightarrow> Head \<Rightarrow> Document \<Rightarrow> Document" where
  "Head_cherryPick uuids h doc =
     fold applyItem (filter (\<lambda>item. getItemId item \<in> set uuids) (map snd (index h))) doc"

definition Head_cherryPickAll :: "Head \<Rightarrow> Document \<Rightarrow> Document" where
  "Head_cherryPickAll h doc = fold applyItem (map snd (index h)) doc"

definition resetEntity :: "(Uuid \<times> RevisionItem) list \<Rightarrow> RevisionItem \<Rightarrow> Document \<Rightarrow> Document" where
  "resetEntity idx item doc =
     (case map_of idx (getItemId item) of
        None \<Rightarrow> AList.delete (getItemId item) doc
      | Some indexed \<Rightarrow> applyItem indexed doc)"

definition Head_resetChanges :: "RevisionItem list \<Rightarrow> Head \<Rightarrow> Document \<Rightarrow> Document" where
  "Head_resetChanges changes h doc = fold (resetEntity (index h)) changes doc"

definition Head_mergeStateWith :: "Revision \<Rightarrow> Head \<Rightarrow> Document \<Rightarrow> Document" where
  "Head_mergeStateWith revision h doc = fold applyItem (getItems revision) doc"

section \<open>Stashes\<close>

text \<open>
  Modelled from the spec: \<^verbatim>\<open>StashesRepository\<close> is missing from the sources. The spec:
  a named side-list of stashes, and a single anonymous slot for the quick stash;
  \<^verbatim>\<open>hasQuickStash\<close> tells whether the slot is occupied, a second \<^verbatim>\<open>storeQuickStash\<close>
  while it is occupied is rejected, and a lookup that finds nothing answers with the
  empty sentinel. A stash is named by its message.
\<close>

record StashesRepository =
  userStashes :: "Revision list"
  quickStash :: "Revision option"

definition addStash :: "Revision \<Rightarrow> StashesRepository \<Rightarrow> StashesRepository" where
  "addStash r st = st\<lparr>userStashes := userStashes st @ [r]\<rparr>"

definition removeStash :: "Revision \<Rightarrow> StashesRepository \<Rightarrow> StashesRepository" where
  "removeStash r st = st\<lparr>userStashes := remove1 r (userStashes st)\<rparr>"

definition getUserStashWithName :: "string \<Rightarrow> StashesRepository \<Rightarrow> Revision" where
  "getUserStashWithName stashName st =
     (case find (\<lambda>r. getMessage r = stashName) (userStashes st) of
        None \<Rightarrow> emptyRevision
      | Some r \<Rightarrow> r)"

definition StashesRepository_hasQuickStash :: "StashesRepository \<Rightarrow> bool" where
  "StashesRepository_hasQuickStash st = (case quickStash st of None \<Rightarrow> False | Some r \<Rightarrow> True)"

definition storeQuickStash :: "Revision \<Rightarrow> StashesRepository \<Rightarrow> StashesRepository" where
  "storeQuickStash r st =
     (if StashesRepository_hasQuickStash st then st else st\<lparr>quickStash := Some r\<rparr>)"

definition resetQuickStash :: "StashesRepository \<Rightarrow> StashesRepository" where
  "resetQuickStash st = st\<lparr>quickStash := None\<rparr>"

definition getQuickStash :: "StashesRepository \<Rightarrow> Revision" where
  "getQuickStash st = (case quickStash st of None \<Rightarrow> emptyRevision | Some r \<Rightarrow> r)"

section \<open>VersionControl\<close>

text \<open>
  The orchestrator's state: the pack, the head, the stashes and the root revision it
  owns, the live document the head works on, and the change messages sent so far. Each
  \<^verbatim>\<open>sendChangeMessage\<close> is recorded with the id of the revision the head is heading
  at when the message is sent, which is what a listener reading the head would find.
\<close>

record VersionControl =
  pack :: Pack
  head :: Head
  stashes :: StashesRepository
  rootRevision :: Revision
  document :: Document
  changeMessages :: "Uuid list"

text \<open>What a method hands back: nothing for a \<^verbatim>\<open>void\<close> method, a flag for a \<^verbatim>\<open>bool\<close> one.\<close>

datatype Returned = Void | Returns bool

definition sendChangeMessage :: "VersionControl \<Rightarrow> VersionControl" where
  "sendChangeMessage vc =
     vc\<lparr>changeMessages := changeMessages vc @ [getUuid (headingRevision (head vc))]\<rparr>"

definition moveHead :: "Revision \<Rightarrow> VersionControl \<Rightarrow> Returned \<times> VersionControl" where
  "moveHead revision vc =
     (if \<not> isEmpty revision then
        (Void, sendChangeMessage (vc\<lparr>head := Head_moveTo (rootRevision vc) revision (head vc)\<rparr>))
      else (Void, vc))"

definition checkout :: "Revision \<Rightarrow> VersionControl \<Rightarrow> Returned \<times> VersionControl" where
  "checkout revision vc =
     (if \<not> isEmpty revision then
        (let moved = vc\<lparr>head := Head_moveTo (rootRevision vc) revision (head vc)\<rparr>;
             restored = moved\<lparr>document := Head_checkout (head moved) (document moved)\<rparr>
         in (Void, sendChangeMessage restored))
      else (Void, vc))"

definition cherryPick :: "Revision \<Rightarrow> Uuid list \<Rightarrow> VersionControl \<Rightarrow> Returned \<times> VersionControl" where
  "cherryPick revision uuids vc =
     (if \<not> isEmpty revision then
        (let headRevision = headingRevision (head vc);
             moved = vc\<lparr>head := Head_moveTo (rootRevision vc) revision (head vc)\<rparr>;
             picked = moved\<lparr>document := Head_cherryPick uuids (head moved) (document moved)\<rparr>;
             back = picked\<lparr>head := Head_moveTo (rootRevision picked) headRevision (head picked)\<rparr>
         in (Void, sendChangeMessage back))
      else (Void, vc))"

text \<open>
  \<^verbatim>\<open>headRevision->addChild(subtree)\<close> changes the revision object inside the tree. Here
  the child is added to the revision of that id in the tree, and in the copy the head
  holds of its heading revision.
\<close>

fun addChildTo :: "Uuid \<Rightarrow> Revision \<Rightarrow> Revision \<Rightarrow> Revision" where
  "addChildTo rid child (Revision uid msg ts items children) =
     (if uid = rid then Revision uid msg ts items (children @ [child])
      else Revision uid msg ts items (map (addChildTo rid child) children))"

definition appendSubtree :: "Revision \<Rightarrow> string \<Rightarrow> VersionControl \<Rightarrow> Returned \<times> VersionControl" where
  "appendSubtree subtree appendRevisionId vc =
     (if appendRevisionId = [] then (Void, vc)
      else
        (let headRevision = getRevisionById (rootRevision vc) appendRevisionId
         in if \<not> isEmpty headRevision then
              (Void, sendChangeMessage
                 (vc\<lparr>rootRevision := addChildTo (getUuid headRevision) subtree (rootRevision vc),
                     head := (head vc)\<lparr>headingRevision :=
                       addChildTo (getUuid headRevision) subtree (headingRevision (head vc))\<rparr>\<rparr>))
            else (Void, vc)))"

text \<open>
  \<^verbatim>\<open>ReferenceCountedArray::operator[]\<close> answers with a null pointer when the index is out
  of range, on either side.
\<close>

definition getObjectPointer :: "'a list \<Rightarrow> int \<Rightarrow> 'a option" where
  "getObjectPointer xs i = (if 0 \<le> i \<and> i < int (length xs) then Some (xs ! nat i) else None)"

text \<open>
  The selection loop of \<^verbatim>\<open>commit\<close>: an index at or past the end of the diff's items
  makes the method return false (\<open>None\<close> here); an item is added when its pointer is not
  null. A \<^verbatim>\<open>SparseSet<int>\<close> is read through \<^verbatim>\<open>operator[]\<close>, so it is the list of its
  values.
\<close>

fun selectItems :: "int list \<Rightarrow> RevisionItem list \<Rightarrow> Revision \<Rightarrow> Revision option" where
  "selectItems [] allItems newRev = Some newRev"
| "selectItems (i # selected) allItems newRev =
     (if i \<ge> int (length allItems) then None
      else (case getObjectPointer allItems i of
              Some item \<Rightarrow> selectItems selected allItems (addItem item newRev)
            | None \<Rightarrow> selectItems selected allItems newRev))"

text \<open>
  \<^verbatim>\<open>commit\<close>. The test of the heading revision against null never fires, the head being
  bound. \<open>uid\<close> and \<open>now\<close> are the id and the timestamp of the revision it creates.
\<close>

definition commit ::
  "int list \<Rightarrow> string \<Rightarrow> Uuid \<Rightarrow> int \<Rightarrow> VersionControl \<Rightarrow> Returned \<times> VersionControl" where
  "commit selectedItems message uid now vc =
     (if length selectedItems = 0 then (Returns False, vc)
      else
        (let allChanges = Head_getDiff (document vc) (head vc)
         in case selectItems selectedItems (getItems allChanges) (newRevision uid now message) of
              None \<Rightarrow> (Returns False, vc)
            | Some newRev \<Rightarrow>
                (let headingRev = headingRevision (head vc);
                     grown = vc\<lparr>rootRevision := addChildTo (getUuid headingRev) newRev (rootRevision vc)\<rparr>;
                     moved = grown\<lparr>head := Head_moveTo (rootRevision grown) newRev (head grown)\<rparr>;
                     flushed = moved\<lparr>pack := Pack_flush (Revision_flush newRev (pack moved))\<rparr>
                 in (Returns True, sendChangeMessage flushed))))"

definition resetAllChanges :: "VersionControl \<Rightarrow> Returned \<times> VersionControl" where
  "resetAllChanges vc =
     (let allChanges = Head_getDiff (document vc) (head vc);
          changesToReset = getItems allChanges
      in (Returns True, vc\<lparr>document := Head_resetChanges changesToReset (head vc) (document vc)\<rparr>))"

subsection \<open>Stashes\<close>

definition applyStash :: "Revision \<Rightarrow> bool \<Rightarrow> VersionControl \<Rightarrow> Returned \<times> VersionControl" where
  "applyStash stash shouldKeepStash vc =
     (if \<not> isEmpty stash then
        (let headRevision = headingRevision (head vc);
             moved = vc\<lparr>head := Head_moveTo (rootRevision vc) stash (head vc)\<rparr>;
             picked = moved\<lparr>document := Head_cherryPickAll (head moved) (document moved)\<rparr>;
             back = picked\<lparr>head := Head_moveTo (rootRevision picked) headRevision (head picked)\<rparr>;
             kept = (if \<not> shouldKeepStash then back\<lparr>stashes := removeStash stash (stashes back)\<rparr>
                     else back)
         in (Returns True, sendChangeMessage kept))
      else (Returns False, vc))"

definition applyStashWithName :: "string \<Rightarrow> bool \<Rightarrow> VersionControl \<Rightarrow> Returned \<times> VersionControl" where
  "applyStashWithName stashId shouldKeepStash vc =
     applyStash (getUserStashWithName stashId (stashes vc)) shouldKeepStash vc"

definition hasQuickStash :: "VersionControl \<Rightarrow> bool" where
  "hasQuickStash vc = (\<not> StashesRepository_hasQuickStash (stashes vc))"

definition quickStashAll :: "VersionControl \<Rightarrow> Returned \<times> VersionControl" where
  "quickStashAll vc =
     (if hasQuickStash vc then (Returns False, vc)
      else
        (let allChanges = Head_getDiff (document vc) (head vc);
             stored = vc\<lparr>stashes := storeQuickStash allChanges (stashes vc)\<rparr>;
             cleared = snd (resetAllChanges stored)
         in (Returns True, sendChangeMessage cleared)))"

definition applyQuickStash :: "VersionControl \<Rightarrow> Returned \<times> VersionControl" where
  "applyQuickStash vc =
     (if \<not> hasQuickStash vc then (Returns False, vc)
      else
        (let tempHead = head vc;
             merged = Head_mergeStateWith (getQuickStash (stashes vc)) tempHead (document vc);
             picked = Head_cherryPickAll tempHead merged;
             emptied = vc\<lparr>document := picked, stashes := resetQuickStash (stashes vc)\<rparr>
         in (Returns True, sendChangeMessage emptied)))"

section \<open>A small project\<close>

text \<open>
  The scenario of the specification: a first revision that adds the entities A and B,
  with a child revision that changes A and another that changes B. The head is on the
  first revision; B has an uncommitted edit in the live document.
\<close>

definition revEdit :: Revision where
  "revEdit = Revision ''r2'' ''edit'' 2 [RevisionItem ''A'' Changed ''a2''] []"

definition revOther :: Revision where
  "revOther = Revision ''r3'' ''other'' 3 [RevisionItem ''B'' Changed ''b3''] []"

definition revInitial :: Revision where
  "revInitial =
     Revision ''r1'' ''initial'' 1
       [RevisionItem ''A'' Added ''a1'', RevisionItem ''B'' Added ''b1''] [revEdit, revOther]"

definition emptyPack :: Pack where
  "emptyPack = \<lparr>payloads = [], dirty = [], persisted = [], storageOk = True\<rparr>"

definition vcProject :: VersionControl where
  "vcProject =
     \<lparr>pack = emptyPack,
      head = Head_moveTo revInitial revInitial
               \<lparr>headingRevision = revInitial, index = [], indexValid = False\<rparr>,
      stashes = \<lparr>userStashes = [], quickStash = None\<rparr>,
      rootRevision = revInitial,
      document = [(''A'', ''a1''), (''B'', ''b9'')],
      changeMessages = []\<rparr>"

definition revStash :: Revision where
  "revStash = Revision ''s1'' ''wip'' 4 [RevisionItem ''B'' Changed ''b7''] []"

definition vcStashed :: VersionControl where
  "vcStashed = vcProject\<lparr>stashes := \<lparr>userStashes = [revStash], quickStash = Some revStash\<rparr>\<rparr>"

section \<open>Properties of the content hash\<close>

lemma sort_cong_mset: "mset xs = mset ys \<Longrightarrow> sort xs = sort (ys::'a::linorder list)"
  by (rule properties_for_sort) simp_all

lemma mset_concat_map_cong:
  assumes "mset xs = mset ys"
  shows "mset (concat (map g xs)) = mset (concat (map g ys))"
proof -
  have "mset (concat (map g zs)) = sum_mset (image_mset (\<lambda>z. mset (g z)) (mset zs))" for zs
    by (induction zs) simp_all
  with assms show ?thesis by simp
qed

lemma getItems_reorderChildren: "getItems (reorderChildren f rid r) = getItems r"
  by (cases r) simp

lemma descendantHashes_reorderChildren:
  assumes perm: "\<And>cs. mset (f cs) = mset cs"
  shows "mset (descendantHashes cth (reorderChildren f rid r)) = mset (descendantHashes cth r)"
proof (induction r)
  case (Revision uid msg ts items children)
  let ?g = "\<lambda>child. String_of_uint32
          (cth (concat (map serializeItem (getItems child))
                @ concat (sort (descendantHashes cth child))))
        # descendantHashes cth child"
  have step: "mset (?g (reorderChildren f rid c)) = mset (?g c)" if "c \<in> set children" for c
    using Revision.IH [OF that] sort_cong_mset [OF Revision.IH [OF that]]
    by (simp add: getItems_reorderChildren)
  have below: "mset (concat (map ?g (map (reorderChildren f rid) children)))
      = mset (concat (map ?g children))"
    using step by (induction children) simp_all
  show ?case
  proof (cases "uid = rid")
    case True
    have "mset (concat (map ?g (f (map (reorderChildren f rid) children))))
        = mset (concat (map ?g (map (reorderChildren f rid) children)))"
      by (rule mset_concat_map_cong) (rule perm)
    with below True show ?thesis by simp
  next
    case False
    with below show ?thesis by simp
  qed
qed

lemma Revision_calculateHash_reorderChildren:
  assumes perm: "\<And>cs. mset (f cs) = mset cs"
  shows "Revision_calculateHash cth (reorderChildren f rid r) = Revision_calculateHash cth r"
  unfolding Revision_calculateHash_def
  using sort_cong_mset [OF descendantHashes_reorderChildren [of f cth rid r, OF perm]]
  by (simp add: getItems_reorderChildren)

lemma recursiveGetHashes_reorderChildren:
  assumes perm: "\<And>cs. mset (f cs) = mset cs"
  shows "mset (recursiveGetHashes cth (reorderChildren f rid r)) = mset (recursiveGetHashes cth r)"
proof (induction r)
  case (Revision uid msg ts items children)
  let ?r = "Revision uid msg ts items children"
  have own: "Revision_calculateHash cth (reorderChildren f rid ?r) = Revision_calculateHash cth ?r"
    by (rule Revision_calculateHash_reorderChildren) (rule perm)
  have below: "mset (concat (map (recursiveGetHashes cth) (map (reorderChildren f rid) children)))
      = mset (concat (map (recursiveGetHashes cth) children))"
    using Revision.IH by (induction children) simp_all
  have here: "mset (concat (map (recursiveGetHashes cth) (f (map (reorderChildren f rid) children))))
        = mset (concat (map (recursiveGetHashes cth) (map (reorderChildren f rid) children)))"
    by (rule mset_concat_map_cong) (rule perm)
  have "recursiveGetHashes cth (reorderChildren f rid ?r)
     = concat (map (recursiveGetHashes cth) (getChildren (reorderChildren f rid ?r)))
       @ [String_of_uint32 (Revision_calculateHash cth (reorderChildren f rid ?r))]"
    by simp
  then show ?case
    using below here own by (cases "uid = rid") simp_all
qed

text \<open>
  Claim C3. For every revision of the tree (the one whose id is \<open>rid\<close>) and every
  rearrangement \<open>f\<close> of its children that keeps them all, the whole-tree hash of
  \<^verbatim>\<open>VersionControl::calculateHash\<close> is the same string: two histories that differ only
  in child order hash equally, whatever the hash function \<open>cth\<close> is.
\<close>

theorem calculateHash_child_order:
  assumes perm: "\<And>children. mset (f children) = mset children"
  shows "calculateHash cth (reorderChildren f rid rootRev) = calculateHash cth rootRev"
  unfolding calculateHash_def
  using sort_cong_mset [OF recursiveGetHashes_reorderChildren [of f cth rid rootRev, OF perm]]
  by simp

theorem calculateHash_child_order_witness:
  "reorderChildren rev ''r1'' revInitial \<noteq> revInitial
   \<and> calculateHash (\<lambda>s. of_nat (length s)) (reorderChildren rev ''r1'' revInitial)
     = calculateHash (\<lambda>s. of_nat (length s)) revInitial"
  using calculateHash_child_order [of rev "\<lambda>s. of_nat (length s)" "''r1''" revInitial, OF mset_rev]
  by (simp add: revInitial_def revEdit_def revOther_def)

section \<open>Properties of the lookup\<close>

lemma isEmpty_emptyRevision: "isEmpty emptyRevision"
  by (simp add: isEmpty_def emptyRevision_def newRevision_def)

lemma getRevisionById_absent:
  "rid \<notin> set (allIds r) \<Longrightarrow> getRevisionById r rid = emptyRevision"
  "rid \<notin> set (concat (map allIds rs)) \<Longrightarrow> getRevisionByIdIn rs rid = emptyRevision"
  by (induction r rid and rs rid rule: getRevisionById_getRevisionByIdIn.induct)
    (auto simp add: Let_def isEmpty_emptyRevision)

text \<open>
  Claim C9. For an id that no revision reachable from the root carries,
  \<^verbatim>\<open>getRevisionById\<close> returns the empty sentinel, a revision object whose \<^verbatim>\<open>isEmpty\<close>
  is true. Every return statement of the method yields an object, so the result is a
  revision and never a null pointer.
\<close>

theorem getRevisionById_unknown:
  assumes "rid \<notin> set (allIds rootRev)"
  shows "getRevisionById rootRev rid = emptyRevision \<and> isEmpty (getRevisionById rootRev rid)"
  using assms by (simp add: getRevisionById_absent isEmpty_emptyRevision)

theorem getRevisionById_unknown_witness:
  "''unknown'' \<notin> set (allIds revInitial)
   \<and> getRevisionById revInitial ''unknown'' = emptyRevision
   \<and> isEmpty (getRevisionById revInitial ''unknown'')"
proof -
  have absent: "''unknown'' \<notin> set (allIds revInitial)"
    by (simp add: revInitial_def revEdit_def revOther_def)
  from getRevisionById_unknown [OF absent] absent show ?thesis by blast
qed

section \<open>Properties of the orchestrator\<close>

lemma selectItems_past_end:
  "\<exists>i \<in> set selected. int (length allItems) \<le> i \<Longrightarrow> selectItems selected allItems newRev = None"
  by (induction selected arbitrary: newRev) (auto split: option.splits)

lemma diff_vcProject:
  "Head_getDiff (document vcProject) (head vcProject)
     = Revision [] [] 0 [RevisionItem ''B'' Changed ''b9''] []"
  by (simp add: vcProject_def Head_getDiff_def Head_moveTo_def revInitial_def mergeItems_def
      diffOfEntity_def diffOfIndexed_def)

text \<open>
  Claim C2, as stated, fails: the index \<open>-1\<close> is out of range of the diff's item list,
  which has one item, and \<^verbatim>\<open>commit\<close> returns true, attaches a revision without items
  under the heading revision and moves the head onto it.
\<close>

theorem commit_negative_index_counterexample:
  "- 1 \<notin> {0 ..< int (length (getItems (Head_getDiff (document vcProject) (head vcProject))))}
   \<and> fst (commit [- 1] ''oops'' ''r9'' 9 vcProject) = Returns True
   \<and> rootRevision (snd (commit [- 1] ''oops'' ''r9'' 9 vcProject)) \<noteq> rootRevision vcProject
   \<and> headingRevision (head (snd (commit [- 1] ''oops'' ''r9'' 9 vcProject)))
       = Revision ''r9'' ''oops'' 9 [] []"
  by (simp add: commit_def diff_vcProject getObjectPointer_def newRevision_def Let_def
      sendChangeMessage_def Head_moveTo_def)
    (simp add: vcProject_def Head_moveTo_def revInitial_def)

text \<open>
  Claim C2, amended. \<^verbatim>\<open>commit\<close> returns false and leaves the whole state as it was (the
  revision tree, the head, the pack, and no change message) whenever the selection is
  empty or some selected index is greater than or equal to the number of items of the
  current diff.
\<close>

theorem commit_rejects:
  assumes "selectedItems = [] \<or>
    (\<exists>i \<in> set selectedItems. int (length (getItems (Head_getDiff (document vc) (head vc)))) \<le> i)"
  shows "commit selectedItems message uid now vc = (Returns False, vc)"
proof (cases "selectedItems = []")
  case True
  then show ?thesis by (simp add: commit_def)
next
  case False
  with assms have "\<exists>i \<in> set selectedItems.
      int (length (getItems (Head_getDiff (document vc) (head vc)))) \<le> i"
    by simp
  then have "selectItems selectedItems (getItems (Head_getDiff (document vc) (head vc)))
      (newRevision uid now message) = None"
    by (rule selectItems_past_end)
  then show ?thesis by (simp add: commit_def Let_def)
qed

theorem commit_rejects_witness:
  "commit [] ''fix'' ''r9'' 9 vcProject = (Returns False, vcProject)
   \<and> int (length (getItems (Head_getDiff (document vcProject) (head vcProject)))) \<le> 1
   \<and> commit [0, 1] ''fix'' ''r9'' 9 vcProject = (Returns False, vcProject)"
proof -
  have past: "[0, 1] = [] \<or> (\<exists>i \<in> set [0, 1].
      int (length (getItems (Head_getDiff (document vcProject) (head vcProject)))) \<le> i)"
    by (simp add: diff_vcProject)
  have none: "([]::int list) = [] \<or> (\<exists>i \<in> set [].
      int (length (getItems (Head_getDiff (document vcProject) (head vcProject)))) \<le> i)"
    by simp
  from commit_rejects [OF past] commit_rejects [OF none] show ?thesis
    by (simp add: diff_vcProject)
qed

lemma head_vcProject:
  "head vcProject =
     \<lparr>headingRevision = revInitial,
      index = [(''A'', RevisionItem ''A'' Added ''a1''), (''B'', RevisionItem ''B'' Added ''b1'')],
      indexValid = True\<rparr>"
  by (simp add: vcProject_def Head_moveTo_def revInitial_def mergeItems_def)

lemma not_isEmpty_revEdit: "\<not> isEmpty revEdit"
  by (simp add: isEmpty_def revEdit_def)

lemma pathTo_revEdit: "pathTo revInitial ''r2'' = [revInitial, revEdit]"
  by (simp add: revInitial_def revEdit_def revOther_def)

lemma index_at_revEdit:
  "index (Head_moveTo revInitial revEdit h)
     = [(''A'', RevisionItem ''A'' Changed ''a2''), (''B'', RevisionItem ''B'' Added ''b1'')]"
  by (simp add: Head_moveTo_def pathTo_revEdit [simplified revEdit_def] mergeItems_def revEdit_def)
    (simp add: revInitial_def)

text \<open>
  Claim C4. For every revision that is not empty and every list of ids, \<^verbatim>\<open>cherryPick\<close>
  leaves the head heading at the revision it was heading at before the call, and sends
  exactly one change message, sent when the head is back on that revision: the one new
  entry of the message log carries the id of the restored heading revision.
\<close>

theorem cherryPick_restores_head:
  assumes "\<not> isEmpty revision"
  shows "fst (cherryPick revision uuids vc) = Void
    \<and> headingRevision (head (snd (cherryPick revision uuids vc))) = headingRevision (head vc)
    \<and> changeMessages (snd (cherryPick revision uuids vc))
        = changeMessages vc @ [getUuid (headingRevision (head vc))]"
  using assms by (simp add: cherryPick_def Let_def sendChangeMessage_def Head_moveTo_def)

theorem cherryPick_restores_head_witness:
  "headingRevision (head (snd (cherryPick revEdit [''A''] vcProject))) = revInitial
   \<and> changeMessages (snd (cherryPick revEdit [''A''] vcProject)) = [''r1'']
   \<and> document (snd (cherryPick revEdit [''A''] vcProject)) = [(''A'', ''a2''), (''B'', ''b9'')]"
proof -
  have start: "headingRevision (head vcProject) = revInitial" "changeMessages vcProject = []"
    "rootRevision vcProject = revInitial" "document vcProject = [(''A'', ''a1''), (''B'', ''b9'')]"
    by (simp_all add: head_vcProject) (simp_all add: vcProject_def)
  have doc: "document (snd (cherryPick revEdit [''A''] vcProject)) = [(''A'', ''a2''), (''B'', ''b9'')]"
    by (simp add: cherryPick_def not_isEmpty_revEdit Let_def sendChangeMessage_def
        Head_cherryPick_def start index_at_revEdit applyItem_def)
  from cherryPick_restores_head [OF not_isEmpty_revEdit, of "[''A'']" vcProject] doc start
  show ?thesis by (simp add: revInitial_def)
qed

text \<open>
  Claim C8, as stated, fails: \<^verbatim>\<open>moveHead\<close> and \<^verbatim>\<open>checkout\<close> are \<^verbatim>\<open>void\<close> methods, so
  for the empty sentinel they hand back nothing, not the flag false.
\<close>

theorem moveHead_checkout_void_counterexample:
  "isEmpty emptyRevision
   \<and> fst (moveHead emptyRevision vcProject) \<noteq> Returns False
   \<and> fst (checkout emptyRevision vcProject) \<noteq> Returns False"
  by (simp add: moveHead_def checkout_def isEmpty_emptyRevision)

text \<open>
  Claim C8, amended. \<^verbatim>\<open>moveHead\<close> and \<^verbatim>\<open>checkout\<close> return nothing. For an empty
  revision they leave the whole state as it was: no head movement, no change of the live
  document, no change message. For a revision that is not empty they move the head onto
  it and send one change message; \<^verbatim>\<open>moveHead\<close> leaves the live document alone, and
  \<^verbatim>\<open>checkout\<close> overwrites it with the state the index of the moved head records.
\<close>

theorem moveHead_checkout:
  "(isEmpty revision \<longrightarrow> moveHead revision vc = (Void, vc) \<and> checkout revision vc = (Void, vc))
   \<and> (\<not> isEmpty revision \<longrightarrow>
        fst (moveHead revision vc) = Void \<and> fst (checkout revision vc) = Void
        \<and> headingRevision (head (snd (moveHead revision vc))) = revision
        \<and> headingRevision (head (snd (checkout revision vc))) = revision
        \<and> document (snd (moveHead revision vc)) = document vc
        \<and> document (snd (checkout revision vc))
            = Head_checkout (Head_moveTo (rootRevision vc) revision (head vc)) (document vc)
        \<and> changeMessages (snd (moveHead revision vc)) = changeMessages vc @ [getUuid revision]
        \<and> changeMessages (snd (checkout revision vc)) = changeMessages vc @ [getUuid revision])"
proof (cases "isEmpty revision")
  case True
  then show ?thesis
    by (simp add: moveHead_def checkout_def)
next
  case False
  have heading: "headingRevision (Head_moveTo (rootRevision vc) revision (head vc)) = revision"
    by (simp add: Head_moveTo_def)
  from False have "moveHead revision vc
      = (Void, sendChangeMessage (vc\<lparr>head := Head_moveTo (rootRevision vc) revision (head vc)\<rparr>))"
    by (simp add: moveHead_def)
  moreover from False have "checkout revision vc
      = (Void, sendChangeMessage
          (vc\<lparr>head := Head_moveTo (rootRevision vc) revision (head vc),
              document := Head_checkout (Head_moveTo (rootRevision vc) revision (head vc))
                (document vc)\<rparr>))"
    by (simp add: checkout_def Let_def)
  ultimately show ?thesis
    using False heading by (simp add: sendChangeMessage_def)
qed

theorem moveHead_checkout_witness:
  "moveHead emptyRevision vcProject = (Void, vcProject)
   \<and> checkout emptyRevision vcProject = (Void, vcProject)
   \<and> headingRevision (head (snd (moveHead revEdit vcProject))) = revEdit
   \<and> headingRevision (head (snd (checkout revEdit vcProject))) = revEdit
   \<and> document (snd (moveHead revEdit vcProject)) = [(''A'', ''a1''), (''B'', ''b9'')]
   \<and> document (snd (checkout revEdit vcProject)) = [(''A'', ''a2''), (''B'', ''b1'')]
   \<and> changeMessages (snd (checkout revEdit vcProject)) = [''r2'']"
proof -
  have doc: "Head_checkout (Head_moveTo (rootRevision vcProject) revEdit (head vcProject))
      (document vcProject) = [(''A'', ''a2''), (''B'', ''b1'')]"
  proof -
    have "rootRevision vcProject = revInitial" "document vcProject = [(''A'', ''a1''), (''B'', ''b9'')]"
      by (simp_all add: vcProject_def)
    then show ?thesis
      by (simp add: Head_checkout_def index_at_revEdit applyItem_def)
  qed
  have start: "document vcProject = [(''A'', ''a1''), (''B'', ''b9'')]" "changeMessages vcProject = []"
    by (simp_all add: vcProject_def)
  from moveHead_checkout [of emptyRevision vcProject] moveHead_checkout [of revEdit vcProject]
    isEmpty_emptyRevision not_isEmpty_revEdit doc start
  show ?thesis by (simp add: revEdit_def)
qed

text \<open>
  Claim C6, as stated, fails: with an empty target id \<^verbatim>\<open>appendSubtree\<close> does nothing
  at all. It hands back nothing, leaves the state as it was, and its outcome is the very
  outcome of a call whose target id is found nowhere in the tree.
\<close>

theorem appendSubtree_silent_counterexample:
  "appendSubtree revStash [] vcProject = (Void, vcProject)
   \<and> appendSubtree revStash [] vcProject = appendSubtree revStash ''r404'' vcProject"
proof -
  have "''r404'' \<notin> set (allIds revInitial)"
    by (simp add: revInitial_def revEdit_def revOther_def)
  then have "getRevisionById (rootRevision vcProject) ''r404'' = emptyRevision"
    by (simp add: getRevisionById_absent vcProject_def)
  then show ?thesis
    by (simp add: appendSubtree_def isEmpty_emptyRevision)
qed

text \<open>
  Claim C6, amended. For every subtree, \<^verbatim>\<open>appendSubtree\<close> called with an empty target
  id is a silent no-op: it returns nothing, leaves the whole state as it was and sends
  no change message.
\<close>

theorem appendSubtree_empty_id: "appendSubtree subtree [] vc = (Void, vc)"
  by (simp add: appendSubtree_def)

text \<open>
  Claim C10. For every name that no stored stash carries, \<^verbatim>\<open>applyStash(name, keepStash)\<close>
  returns false and leaves the whole state as it was: the heading revision is the same,
  no stash is removed and no change message is sent.
\<close>

theorem applyStash_unknown_name:
  assumes "stashId \<notin> set (map getMessage (userStashes (stashes vc)))"
  shows "applyStashWithName stashId shouldKeepStash vc = (Returns False, vc)"
proof -
  have "find (\<lambda>r. getMessage r = stashId) (userStashes (stashes vc)) = None"
    using assms by (auto simp add: find_None_iff)
  then show ?thesis
    by (simp add: applyStashWithName_def getUserStashWithName_def applyStash_def
        isEmpty_emptyRevision)
qed

theorem applyStash_unknown_name_witness:
  "''nope'' \<notin> set (map getMessage (userStashes (stashes vcStashed)))
   \<and> applyStashWithName ''nope'' False vcStashed = (Returns False, vcStashed)
   \<and> fst (applyStashWithName ''wip'' False vcStashed) = Returns True"
proof -
  have absent: "''nope'' \<notin> set (map getMessage (userStashes (stashes vcStashed)))"
    by (simp add: vcStashed_def revStash_def)
  have found: "fst (applyStashWithName ''wip'' False vcStashed) = Returns True"
    by (simp add: applyStashWithName_def getUserStashWithName_def applyStash_def vcStashed_def
        revStash_def isEmpty_def Let_def)
  from applyStash_unknown_name [OF absent, of False] absent found show ?thesis by blast
qed

text \<open>
  Claim C1 against the code. \<^verbatim>\<open>VersionControl::hasQuickStash\<close> answers with the
  negation of what the repository of stashes reports. With the quick slot occupied,
  \<^verbatim>\<open>quickStashAll\<close> therefore passes its guard: it returns true, the live edit of B is
  reset, a change message is sent, and \<^verbatim>\<open>hasQuickStash\<close> reports false before and
  after. With the slot free it returns false and stores nothing.
\<close>

theorem quickStashAll_occupied_slot:
  "quickStash (stashes vcStashed) = Some revStash
   \<and> hasQuickStash vcStashed = False
   \<and> fst (quickStashAll vcStashed) = Returns True
   \<and> quickStash (stashes (snd (quickStashAll vcStashed))) = Some revStash
   \<and> hasQuickStash (snd (quickStashAll vcStashed)) = False
   \<and> document vcStashed = [(''A'', ''a1''), (''B'', ''b9'')]
   \<and> document (snd (quickStashAll vcStashed)) = [(''A'', ''a1''), (''B'', ''b1'')]
   \<and> changeMessages (snd (quickStashAll vcStashed)) = [''r1'']
   \<and> quickStashAll vcProject = (Returns False, vcProject)"
proof -
  have parts: "stashes vcStashed = \<lparr>userStashes = [revStash], quickStash = Some revStash\<rparr>"
    "head vcStashed = head vcProject" "document vcStashed = document vcProject"
    "changeMessages vcStashed = []" "document vcProject = [(''A'', ''a1''), (''B'', ''b9'')]"
    "stashes vcProject = \<lparr>userStashes = [], quickStash = None\<rparr>"
    by (simp_all add: vcStashed_def) (simp_all add: vcProject_def)
  have reset: "Head_resetChanges [RevisionItem ''B'' Changed ''b9''] (head vcProject)
      [(''A'', ''a1''), (''B'', ''b9'')] = [(''A'', ''a1''), (''B'', ''b1'')]"
    by (simp add: Head_resetChanges_def resetEntity_def head_vcProject applyItem_def)
  have heading: "getUuid (headingRevision (head vcProject)) = ''r1''"
    by (simp add: head_vcProject revInitial_def)
  show ?thesis
    using diff_vcProject reset heading
    by (simp add: quickStashAll_def hasQuickStash_def StashesRepository_hasQuickStash_def parts
        storeQuickStash_def resetAllChanges_def Let_def sendChangeMessage_def)
qed

text \<open>
  Claim C5 against the code, by the same negation in \<^verbatim>\<open>VersionControl::hasQuickStash\<close>.
  With the quick slot occupied \<^verbatim>\<open>applyQuickStash\<close> returns false and changes nothing,
  so the stash is neither merged nor cleared; with the slot free it returns true and
  sends a change message.
\<close>

theorem applyQuickStash_inverted_guard:
  "quickStash (stashes vcStashed) = Some revStash
   \<and> applyQuickStash vcStashed = (Returns False, vcStashed)
   \<and> quickStash (stashes vcProject) = None
   \<and> fst (applyQuickStash vcProject) = Returns True
   \<and> changeMessages (snd (applyQuickStash vcProject)) = [''r1'']"
proof -
  have parts: "stashes vcStashed = \<lparr>userStashes = [revStash], quickStash = Some revStash\<rparr>"
    "stashes vcProject = \<lparr>userStashes = [], quickStash = None\<rparr>"
    "changeMessages vcProject = []"
    by (simp_all add: vcStashed_def) (simp_all add: vcProject_def)
  have heading: "getUuid (headingRevision (head vcProject)) = ''r1''"
    by (simp add: head_vcProject revInitial_def)
  show ?thesis
    using heading
    by (simp add: applyQuickStash_def hasQuickStash_def StashesRepository_hasQuickStash_def parts
        Let_def sendChangeMessage_def)
qed

end
